theory Spec2Isabelle
  imports Main
begin

section \<open>The process: environment variables and the file system\<close>

text \<open>
  A JavaScript \<open>Error\<close> value, carrying its message. It stands for whatever
  \<open>readFileSync\<close> throws (missing file, permission error, any I/O failure) and for the
  error handed to the \<open>SHUTDOWN\<close> listener.
\<close>

datatype js_error = Error string

text \<open>What the code looked at: one entry per read of \<open>process.env\<close> or of a file.\<close>

datatype access = EnvRead string | FileRead string

text \<open>
  \<open>process_env\<close> is \<open>process.env\<close>: a variable is absent (\<open>undefined\<close>) or holds a string,
  possibly the empty one. \<open>files path\<close> is what \<open>readFileSync(path, 'utf8')\<close> does: it
  returns the contents or throws. \<open>accesses\<close> is the log of reads made so far.
\<close>

record process =
  process_env :: "string \<rightharpoonup> string"
  files :: "string \<Rightarrow> js_error + string"
  accesses :: "access list"

definition getenv :: "string \<Rightarrow> process \<Rightarrow> string option \<times> process" where
  "getenv name p = (process_env p name, p\<lparr>accesses := accesses p @ [EnvRead name]\<rparr>)"

definition readFileSync :: "string \<Rightarrow> process \<Rightarrow> (js_error + string) \<times> process" where
  "readFileSync path p = (files p path, p\<lparr>accesses := accesses p @ [FileRead path]\<rparr>)"

text \<open>
  JavaScript truthiness of a value that is \<open>undefined\<close> or a string: only a non-empty
  string is truthy.
\<close>

definition truthy :: "string option \<Rightarrow> bool" where
  "truthy v = (case v of None \<Rightarrow> False | Some s \<Rightarrow> s \<noteq> [])"

section \<open>The regular expression \<open>/docker|kubepods|containerd|libpod/i\<close>\<close>

text \<open>
  With the \<open>i\<close> flag (and no \<open>u\<close> flag) two characters match when their canonical
  forms, the upper-case ones, are equal. A character outside ASCII is never canonicalised
  to an ASCII one, so against the pattern's ASCII letters only the two cases of a letter
  match; other characters are left as they are.
\<close>

definition canonicalize :: "char \<Rightarrow> char" where
  "canonicalize c =
     (case map_of (zip ''abcdefghijklmnopqrstuvwxyz'' ''ABCDEFGHIJKLMNOPQRSTUVWXYZ'') c of
        Some u \<Rightarrow> u
      | None \<Rightarrow> c)"

text \<open>The literal \<open>pat\<close> matches at the start of the input.\<close>

fun matches_at :: "string \<Rightarrow> string \<Rightarrow> bool" where
  "matches_at [] s = True"
| "matches_at (p # ps) [] = False"
| "matches_at (p # ps) (c # cs) = (canonicalize p = canonicalize c \<and> matches_at ps cs)"

text \<open>
  \<open>RegExp.prototype.test\<close> on an alternation of literals: try every alternative at
  index 0, then move one character forward, up to the end of the input.
\<close>

fun regex_test :: "string list \<Rightarrow> string \<Rightarrow> bool" where
  "regex_test alts [] = list_ex (\<lambda>a. matches_at a []) alts"
| "regex_test alts (c # cs) = (list_ex (\<lambda>a. matches_at a (c # cs)) alts \<or> regex_test alts cs)"

definition container_signatures :: "string list" where
  "container_signatures = [''docker'', ''kubepods'', ''containerd'', ''libpod'']"

section \<open>Runtime detection\<close>

text \<open>
  \<open>detectGracelyRuntime\<close>, statement by statement. The result is \<open>Inr\<close> of the returned
  runtime, or \<open>Inl\<close> of an error thrown out of the function; the \<open>catch\<close> clause of the
  source is the \<open>Inl\<close> branch of the file read, which falls through to \<open>'local'\<close>.
  The right operand of \<open>||\<close> is evaluated only when the left one is falsy.
\<close>

definition detectGracelyRuntime :: "string option \<Rightarrow> process \<Rightarrow> (js_error + string) \<times> process" where
  "detectGracelyRuntime containerEndpoint p0 =
     (let (service_host, p1) = getenv ''KUBERNETES_SERVICE_HOST'' p0 in
      if truthy service_host then (Inr ''kubernetes'', p1)
      else
        let (flag, p2) = getenv ''K8S'' p1 in
        if flag = Some ''true'' then (Inr ''kubernetes'', p2)
        else if truthy containerEndpoint then
          (case containerEndpoint of
             None \<Rightarrow> (Inr ''local'', p2)
           | Some path \<Rightarrow>
               (case readFileSync path p2 of
                  (Inr content, p3) \<Rightarrow>
                    if regex_test container_signatures content then (Inr ''container'', p3)
                    else (Inr ''local'', p3)
                | (Inl e, p3) \<Rightarrow> (Inr ''local'', p3)))
        else (Inr ''local'', p2))"

section \<open>The graceful-server collaborator\<close>

text \<open>
  The options object the plugin hands to \<open>GracefulServer(fastify.server, {...})\<close>.
  \<open>closePromises\<close> holds \<open>opts.closing\<close> or nothing.
\<close>

datatype closer = Closing

record IOptions =
  o_timeout :: int
  o_syncClose :: bool
  o_closePromises :: "closer list"
  o_healthCheck :: bool
  o_kubernetes :: bool
  o_livenessEndpoint :: string
  o_readinessEndpoint :: string

datatype LifecycleState = S_STARTING | S_READY | S_SHUTTING_DOWN | S_SHUTDOWN

text \<open>The events of \<open>GracefulServer.READY\<close>, \<open>.SHUTTING_DOWN\<close> and \<open>.SHUTDOWN\<close>; the last
  carries the error value, or none.\<close>

datatype event = READY | SHUTTING_DOWN | SHUTDOWN "js_error option"

record GracefulServer =
  gs_options :: IOptions
  gs_state :: LifecycleState

text \<open>
  Modelled from the spec: the constructor of the graceful-server library, which is not
  part of the sources. A new lifecycle state machine starts in \<open>STARTING\<close> and keeps the
  configuration it was given. The spec says that a configuration is validated once, at
  construction, and not how: \<open>check\<close> is that validation, \<open>None\<close> when the options are
  accepted and the error thrown otherwise.
\<close>

definition GracefulServer_create ::
  "(IOptions \<Rightarrow> js_error option) \<Rightarrow> IOptions \<Rightarrow> js_error + GracefulServer" where
  "GracefulServer_create check opts =
     (case check opts of
        Some e \<Rightarrow> Inl e
      | None \<Rightarrow> Inr \<lparr>gs_options = opts, gs_state = S_STARTING\<rparr>)"

text \<open>
  Modelled from the spec: \<open>isReady\<close> of the graceful-server library. Readiness queries
  reflect \<open>currentState() == READY\<close> exactly.
\<close>

definition isReady :: "GracefulServer \<Rightarrow> bool" where
  "isReady g = (gs_state g = S_READY)"

text \<open>
  Modelled from the spec: \<open>setReady\<close> (\<open>markReady\<close>) of the graceful-server library.
  It moves \<open>STARTING\<close> to \<open>READY\<close> and fires the ready event; called again, or after
  shutdown has begun, it has no effect.
\<close>

definition setReady :: "GracefulServer \<Rightarrow> GracefulServer \<times> event list" where
  "setReady g =
     (if gs_state g = S_STARTING then (g\<lparr>gs_state := S_READY\<rparr>, [READY]) else (g, []))"

text \<open>
  Modelled from the spec: \<open>beginShutdown\<close> of the graceful-server library, run on a
  termination signal. It moves \<open>READY\<close> or \<open>STARTING\<close> to \<open>SHUTTING_DOWN\<close> and fires the
  shutting-down event; a second call is a no-op.
\<close>

definition beginShutdown :: "GracefulServer \<Rightarrow> GracefulServer \<times> event list" where
  "beginShutdown g =
     (if gs_state g = S_STARTING \<or> gs_state g = S_READY
      then (g\<lparr>gs_state := S_SHUTTING_DOWN\<rparr>, [SHUTTING_DOWN]) else (g, []))"

text \<open>
  Modelled from the spec: \<open>markShutdown\<close> of the graceful-server library. It moves
  \<open>SHUTTING_DOWN\<close> to \<open>SHUTDOWN\<close> and fires the shutdown event with the error value, or
  none on a clean shutdown; it is terminal.
\<close>

definition markShutdown :: "js_error option \<Rightarrow> GracefulServer \<Rightarrow> GracefulServer \<times> event list" where
  "markShutdown err g =
     (if gs_state g = S_SHUTTING_DOWN then (g\<lparr>gs_state := S_SHUTDOWN\<rparr>, [SHUTDOWN err])
      else (g, []))"

text \<open>
  Modelled from the spec: the HTTP probe routes of the graceful-server library. The two
  read paths (liveness, readiness) exist when the health check is enabled, at the
  configured paths.
\<close>

definition probe_routes :: "GracefulServer \<Rightarrow> string list" where
  "probe_routes g =
     (if o_healthCheck (gs_options g)
      then [o_livenessEndpoint (gs_options g), o_readinessEndpoint (gs_options g)] else [])"

section \<open>The host: decorators, hooks and the object store\<close>

text \<open>
  The object literal \<open>{runtime: env, ready() {...}}\<close>. Its \<open>ready\<close> method is a closure
  over \<open>graceful\<close> and has no field of its own here; \<open>frozen\<close> records \<open>Object.freeze\<close>.
\<close>

record gracely_object =
  gracely_runtime :: string
  frozen :: bool

type_synonym addr = nat

text \<open>Objects live in a store; an address is an index into it, and a reference is an address.\<close>

definition alloc :: "gracely_object list \<Rightarrow> gracely_object \<Rightarrow> addr \<times> gracely_object list" where
  "alloc h obj = (length h, h @ [obj])"

definition deref :: "gracely_object list \<Rightarrow> addr \<Rightarrow> gracely_object option" where
  "deref h a = (if a < length h then Some (h ! a) else None)"

text \<open>
  An assignment \<open>obj.runtime = v\<close> by any consumer. On a frozen object it changes nothing
  (it is ignored, or throws a \<open>TypeError\<close> in strict mode); an address that holds no
  object is left alone.
\<close>

definition assign_runtime :: "addr \<Rightarrow> string \<Rightarrow> gracely_object list \<Rightarrow> gracely_object list" where
  "assign_runtime a v h =
     (case deref h a of
        None \<Rightarrow> h
      | Some obj \<Rightarrow> if frozen obj then h else h[a := obj\<lparr>gracely_runtime := v\<rparr>])"

datatype hook = SetReady

text \<open>
  The Fastify instance as far as the plugin touches it. A decorator registered with
  \<open>{getter: () => gracely}\<close> is the address its getter returns.
\<close>

record fastify =
  store :: "gracely_object list"
  decorators :: "string \<rightharpoonup> addr"
  request_decorators :: "string \<rightharpoonup> addr"
  onReady_hooks :: "hook list"

text \<open>
  \<open>fastify.decorate(name, {getter})\<close> and \<open>fastify.decorateRequest(name, {getter})\<close>, of
  the Fastify framework: each throws \<open>FST_ERR_DEC_ALREADY_PRESENT\<close> when the name is
  already decorated there, and registers the getter otherwise.
\<close>

definition decorate :: "string \<Rightarrow> addr \<Rightarrow> fastify \<Rightarrow> js_error + fastify" where
  "decorate name a f =
     (case decorators f name of
        Some b \<Rightarrow> Inl (Error ''FST_ERR_DEC_ALREADY_PRESENT'')
      | None \<Rightarrow> Inr (f\<lparr>decorators := (decorators f)(name \<mapsto> a)\<rparr>))"

definition decorateRequest :: "string \<Rightarrow> addr \<Rightarrow> fastify \<Rightarrow> js_error + fastify" where
  "decorateRequest name a f =
     (case request_decorators f name of
        Some b \<Rightarrow> Inl (Error ''FST_ERR_DEC_ALREADY_PRESENT'')
      | None \<Rightarrow> Inr (f\<lparr>request_decorators := (request_decorators f)(name \<mapsto> a)\<rparr>))"

section \<open>The plugin\<close>

text \<open>
  The plugin's options. A callback field is \<open>True\<close> when \<open>typeof opts.f === 'function'\<close>.
  \<open>runtime\<close> is a string at run time; the type \<open>GracelyRuntime\<close> restricts it to five
  values at compile time only. \<open>timeout\<close> is a number, taken here as an integer.
\<close>

record FastifyGracelyOptions =
  opt_runtime :: "string option"
  opt_timeout :: "int option"
  opt_livenessEndpoint :: "string option"
  opt_readinessEndpoint :: "string option"
  opt_containerEndpoint :: "string option"
  opt_ready :: bool
  opt_close :: bool
  opt_error :: bool
  opt_closing :: bool

definition GracelyRuntime :: "string list" where
  "GracelyRuntime = [''none'', ''auto'', ''local'', ''container'', ''kubernetes'']"

text \<open>A destructuring default applies when the property is \<open>undefined\<close>, and only then.\<close>

definition or_default :: "'a option \<Rightarrow> 'a \<Rightarrow> 'a" where
  "or_default v d = (case v of None \<Rightarrow> d | Some x \<Rightarrow> x)"

text \<open>What the listeners do that is visible outside: user callbacks called and log lines.\<close>

datatype effect = CallReady | CallClose | CallError "js_error option" | LogInfo string

datatype listener = OnReady | OnShuttingDown | OnShutdown

text \<open>The three listeners the plugin registers with \<open>graceful.on\<close>, each on its own event.\<close>

fun run_listener :: "FastifyGracelyOptions \<Rightarrow> listener \<Rightarrow> event \<Rightarrow> effect list" where
  "run_listener opts OnReady READY =
     (if opt_ready opts then [CallReady] else []) @ [LogInfo ''Server is ready ...'']"
| "run_listener opts OnShuttingDown SHUTTING_DOWN =
     (if opt_close opts then [CallClose] else []) @ [LogInfo ''Server is closed !!!'']"
| "run_listener opts OnShutdown (SHUTDOWN error) =
     (if opt_error opts then [CallError error] else [])"
| "run_listener opts l ev = []"

text \<open>Everything the plugin has set up once \<open>done()\<close> has been called.\<close>

record registration =
  host :: fastify
  graceful :: GracefulServer
  listeners :: "listener list"
  callbacks :: FastifyGracelyOptions
  effects :: "effect list"
  proc :: process

text \<open>
  The plugin body. \<open>Inl\<close> is an error thrown out of it; \<open>Inr\<close> is the state at the call of
  \<open>done()\<close>, which is called without an error. \<open>check\<close> is the validation of the
  graceful-server constructor. The statements run in the order of the source: the
  environment, the graceful server, the frozen object, the two decorators, the listeners
  and the hook; the first that throws ends the construction.
\<close>

definition plugin ::
  "(IOptions \<Rightarrow> js_error option) \<Rightarrow> FastifyGracelyOptions \<Rightarrow> fastify \<Rightarrow> process
     \<Rightarrow> js_error + registration" where
  "plugin check opts f p =
     (let runtime = or_default (opt_runtime opts) ''auto'';
          timeout = or_default (opt_timeout opts) 10000;
          livenessEndpoint = or_default (opt_livenessEndpoint opts) ''/live'';
          readinessEndpoint = or_default (opt_readinessEndpoint opts) ''/ready'';
          containerEndpoint = or_default (opt_containerEndpoint opts) ''/proc/1/cgroup'';
          (detected, p') =
             (if runtime = ''auto'' then detectGracelyRuntime (Some containerEndpoint) p
              else (Inr runtime, p))
      in case detected of
           Inl e \<Rightarrow> Inl e
         | Inr env \<Rightarrow>
             let isKubernetes = (env = ''kubernetes'') in
             case GracefulServer_create check
                    \<lparr>o_timeout = timeout,
                     o_syncClose = False,
                     o_closePromises = (if opt_closing opts then [Closing] else []),
                     o_healthCheck = isKubernetes,
                     o_kubernetes = isKubernetes,
                     o_livenessEndpoint = livenessEndpoint,
                     o_readinessEndpoint = readinessEndpoint\<rparr> of
               Inl e \<Rightarrow> Inl e
             | Inr g \<Rightarrow>
                 let (gracely, h) = alloc (store f) \<lparr>gracely_runtime = env, frozen = True\<rparr>
                 in case decorate ''gracely'' gracely (f\<lparr>store := h\<rparr>) of
                      Inl e \<Rightarrow> Inl e
                    | Inr f1 \<Rightarrow>
                        (case decorateRequest ''gracely'' gracely f1 of
                           Inl e \<Rightarrow> Inl e
                         | Inr f2 \<Rightarrow>
                             let f3 = f2\<lparr>onReady_hooks := onReady_hooks f2 @ [SetReady]\<rparr>
                             in Inr \<lparr>host = f3, graceful = g,
                                     listeners = [OnReady, OnShuttingDown, OnShutdown],
                                     callbacks = opts, effects = [], proc = p'\<rparr>))"

text \<open>The \<open>ready()\<close> method of the decorated object: \<open>graceful.isReady()\<close>.\<close>

definition gracely_ready :: "registration \<Rightarrow> bool" where
  "gracely_ready r = isReady (graceful r)"

section \<open>After construction\<close>

text \<open>The library emits an event: every registered listener runs on it, in order.\<close>

definition emit :: "event \<Rightarrow> registration \<Rightarrow> registration" where
  "emit ev r =
     r\<lparr>effects := effects r @ concat (map (\<lambda>l. run_listener (callbacks r) l ev) (listeners r))\<rparr>"

text \<open>A call into the library changes its state and emits what the call fired.\<close>

definition call_graceful ::
  "(GracefulServer \<Rightarrow> GracefulServer \<times> event list) \<Rightarrow> registration \<Rightarrow> registration" where
  "call_graceful m r = (let (g, evs) = m (graceful r) in fold emit evs (r\<lparr>graceful := g\<rparr>))"

text \<open>The hook added with \<open>fastify.addHook('onReady', ...)\<close> calls \<open>graceful.setReady()\<close>.\<close>

fun run_hook :: "hook \<Rightarrow> registration \<Rightarrow> registration" where
  "run_hook SetReady r = call_graceful setReady r"

text \<open>
  What can happen to a registered plugin: the host runs its \<open>onReady\<close> hooks, a
  termination signal begins the shutdown, the shutdown completes with an error or none,
  and a consumer tries to assign to the \<open>runtime\<close> field of an object.
\<close>

datatype action =
    FireOnReady
  | Signal
  | Complete "js_error option"
  | AssignRuntime addr string

fun step :: "action \<Rightarrow> registration \<Rightarrow> registration" where
  "step FireOnReady r = fold run_hook (onReady_hooks (host r)) r"
| "step Signal r = call_graceful beginShutdown r"
| "step (Complete err) r = call_graceful (markShutdown err) r"
| "step (AssignRuntime a v) r = r\<lparr>host := (host r)\<lparr>store := assign_runtime a v (store (host r))\<rparr>\<rparr>"

text \<open>Construct the plugin, then let the actions happen one after the other.\<close>

definition run ::
  "(IOptions \<Rightarrow> js_error option) \<Rightarrow> FastifyGracelyOptions \<Rightarrow> fastify \<Rightarrow> process
     \<Rightarrow> action list \<Rightarrow> js_error + registration" where
  "run check opts f p acts =
     (case plugin check opts f p of Inl e \<Rightarrow> Inl e | Inr r \<Rightarrow> Inr (fold step acts r))"

text \<open>Reading one thing off the outcome of a construction; nothing if it threw.\<close>

definition outcome :: "(registration \<Rightarrow> 'a) \<Rightarrow> js_error + registration \<Rightarrow> 'a option" where
  "outcome get res = (case res of Inl e \<Rightarrow> None | Inr r \<Rightarrow> Some (get r))"

text \<open>
  \<open>fastify.gracely\<close> and \<open>request.gracely\<close>: the getter's reference, and the object it
  refers to.
\<close>

definition fastify_gracely :: "registration \<Rightarrow> addr option" where
  "fastify_gracely r = decorators (host r) ''gracely''"

definition request_gracely :: "registration \<Rightarrow> addr option" where
  "request_gracely r = request_decorators (host r) ''gracely''"

definition object_at :: "registration \<Rightarrow> addr option \<Rightarrow> gracely_object option" where
  "object_at r ref = (case ref of None \<Rightarrow> None | Some a \<Rightarrow> deref (store (host r)) a)"

text \<open>The paths of the files read so far, oldest first.\<close>

fun read_path :: "access \<Rightarrow> string list" where
  "read_path (FileRead path) = [path]"
| "read_path (EnvRead name) = []"

definition file_reads :: "process \<Rightarrow> string list" where
  "file_reads p = concat (map read_path (accesses p))"

text \<open>\<open>fastify.gracely.runtime\<close>, the registered probe routes, and the timeout in force.\<close>

definition fastify_gracely_runtime :: "registration \<Rightarrow> string option" where
  "fastify_gracely_runtime r = map_option gracely_runtime (object_at r (fastify_gracely r))"

definition registered_routes :: "registration \<Rightarrow> string list" where
  "registered_routes r = probe_routes (graceful r)"

definition configured_timeout :: "registration \<Rightarrow> int" where
  "configured_timeout r = o_timeout (gs_options (graceful r))"

definition inspected :: "registration \<Rightarrow> access list" where
  "inspected r = accesses (proc r)"

text \<open>
  The parts of the plugin body, named for the statements below: the environment of line
  147, the options object of lines 151 to 159, and the state left by lines 162 to 206.
\<close>

definition resolve :: "FastifyGracelyOptions \<Rightarrow> process \<Rightarrow> (js_error + string) \<times> process" where
  "resolve opts p =
     (if or_default (opt_runtime opts) ''auto'' = ''auto''
      then detectGracelyRuntime
             (Some (or_default (opt_containerEndpoint opts) ''/proc/1/cgroup'')) p
      else (Inr (or_default (opt_runtime opts) ''auto''), p))"

definition server_options :: "FastifyGracelyOptions \<Rightarrow> string \<Rightarrow> IOptions" where
  "server_options opts env =
     \<lparr>o_timeout = or_default (opt_timeout opts) 10000,
      o_syncClose = False,
      o_closePromises = (if opt_closing opts then [Closing] else []),
      o_healthCheck = (env = ''kubernetes''),
      o_kubernetes = (env = ''kubernetes''),
      o_livenessEndpoint = or_default (opt_livenessEndpoint opts) ''/live'',
      o_readinessEndpoint = or_default (opt_readinessEndpoint opts) ''/ready''\<rparr>"

definition registered ::
  "FastifyGracelyOptions \<Rightarrow> fastify \<Rightarrow> string \<Rightarrow> process \<Rightarrow> registration" where
  "registered opts f env p =
     \<lparr>host = \<lparr>store = store f @ [\<lparr>gracely_runtime = env, frozen = True\<rparr>],
              decorators = (decorators f)(''gracely'' \<mapsto> length (store f)),
              request_decorators = (request_decorators f)(''gracely'' \<mapsto> length (store f)),
              onReady_hooks = onReady_hooks f @ [SetReady]\<rparr>,
      graceful = \<lparr>gs_options = server_options opts env, gs_state = S_STARTING\<rparr>,
      listeners = [OnReady, OnShuttingDown, OnShutdown],
      callbacks = opts, effects = [], proc = p\<rparr>"

text \<open>Concrete values for the examples.\<close>

definition accept_all :: "IOptions \<Rightarrow> js_error option" where
  "accept_all options = None"

definition positive_timeout_only :: "IOptions \<Rightarrow> js_error option" where
  "positive_timeout_only options =
     (if 0 < o_timeout options then None else Some (Error ''invalid timeout''))"

definition no_options :: FastifyGracelyOptions where
  "no_options =
     \<lparr>opt_runtime = None, opt_timeout = None, opt_livenessEndpoint = None,
      opt_readinessEndpoint = None, opt_containerEndpoint = None,
      opt_ready = False, opt_close = False, opt_error = False, opt_closing = False\<rparr>"

definition new_fastify :: fastify where
  "new_fastify =
     \<lparr>store = [], decorators = Map.empty, request_decorators = Map.empty, onReady_hooks = []\<rparr>"

definition decorated_fastify :: fastify where
  "decorated_fastify =
     \<lparr>store = [\<lparr>gracely_runtime = ''local'', frozen = True\<rparr>],
      decorators = [''gracely'' \<mapsto> 0], request_decorators = [''gracely'' \<mapsto> 0],
      onReady_hooks = [SetReady]\<rparr>"

definition bare_process :: process where
  "bare_process =
     \<lparr>process_env = Map.empty, files = (\<lambda>path. Inl (Error ''ENOENT'')), accesses = []\<rparr>"

definition kubernetes_process :: process where
  "kubernetes_process =
     \<lparr>process_env = [''KUBERNETES_SERVICE_HOST'' \<mapsto> ''10.96.0.1''],
      files = (\<lambda>path. Inr ''12:pids:/docker/abc''), accesses = []\<rparr>"

definition empty_host_process :: process where
  "empty_host_process =
     \<lparr>process_env = [''KUBERNETES_SERVICE_HOST'' \<mapsto> []],
      files = (\<lambda>path. Inl (Error ''ENOENT'')), accesses = []\<rparr>"

definition flag_process :: "string \<Rightarrow> process" where
  "flag_process v =
     \<lparr>process_env = [''K8S'' \<mapsto> v],
      files = (\<lambda>path. Inl (Error ''ENOENT'')), accesses = []\<rparr>"

definition container_process :: process where
  "container_process =
     \<lparr>process_env = Map.empty,
      files = (\<lambda>path. if path = ''/proc/1/cgroup'' then Inr ''12:pids:/DOCKER/0a1b''
                       else Inl (Error ''ENOENT'')),
      accesses = []\<rparr>"

section \<open>Properties of the detection\<close>

lemma matches_at_append:
  "map canonicalize s = map canonicalize pat \<Longrightarrow> matches_at pat (s @ post)"
proof (induction pat arbitrary: s)
  case Nil
  then show ?case by simp
next
  case (Cons a pat)
  then obtain c cs where s: "s = c # cs" by (cases s) auto
  with Cons show ?case by simp
qed

lemma regex_test_here:
  "list_ex (\<lambda>a. matches_at a s) alts \<Longrightarrow> regex_test alts s"
  by (cases s) simp_all

lemma regex_test_skip: "regex_test alts s \<Longrightarrow> regex_test alts (pre @ s)"
  by (induction pre) simp_all

lemma regex_test_contains:
  assumes "sig \<in> set alts" and "map canonicalize s = map canonicalize sig"
  shows "regex_test alts (pre @ s @ post)"
proof -
  have "matches_at sig (s @ post)"
    using assms(2) by (rule matches_at_append)
  with assms(1) have "list_ex (\<lambda>a. matches_at a (s @ post)) alts"
    by (auto simp: list_ex_iff)
  then have "regex_test alts (s @ post)" by (rule regex_test_here)
  then show ?thesis by (rule regex_test_skip)
qed

text \<open>The branches of the detection, one lemma each.\<close>

lemma detect_kubernetes:
  assumes "truthy (process_env p ''KUBERNETES_SERVICE_HOST'')
           \<or> process_env p ''K8S'' = Some ''true''"
  shows "fst (detectGracelyRuntime ce p) = Inr ''kubernetes''"
    and "file_reads (snd (detectGracelyRuntime ce p)) = file_reads p"
  using assms
  by (auto simp: detectGracelyRuntime_def getenv_def file_reads_def Let_def)

lemmas detect_splits = option.splits sum.splits prod.splits

lemma detect_not_kubernetes:
  assumes "\<not> truthy (process_env p ''KUBERNETES_SERVICE_HOST'')"
    and "process_env p ''K8S'' \<noteq> Some ''true''"
  shows "fst (detectGracelyRuntime ce p) = Inr ''local''
         \<or> fst (detectGracelyRuntime ce p) = Inr ''container''"
  using assms
  by (auto simp: detectGracelyRuntime_def getenv_def readFileSync_def Let_def
      split: detect_splits)

lemma detect_total: "\<exists>v. fst (detectGracelyRuntime ce p) = Inr v"
  by (auto simp: detectGracelyRuntime_def getenv_def readFileSync_def Let_def
      split: detect_splits)

lemma detect_container:
  assumes "\<not> truthy (process_env p ''KUBERNETES_SERVICE_HOST'')"
    and "process_env p ''K8S'' \<noteq> Some ''true''"
    and "path \<noteq> []"
    and "files p path = Inr content"
    and "regex_test container_signatures content"
  shows "detectGracelyRuntime (Some path) p =
           (Inr ''container'',
            p\<lparr>accesses := accesses p @
               [EnvRead ''KUBERNETES_SERVICE_HOST'', EnvRead ''K8S'', FileRead path]\<rparr>)"
  using assms
  by (auto simp: detectGracelyRuntime_def getenv_def readFileSync_def Let_def truthy_def
      split: detect_splits)

lemma detect_unreadable:
  assumes "\<not> truthy (process_env p ''KUBERNETES_SERVICE_HOST'')"
    and "process_env p ''K8S'' \<noteq> Some ''true''"
    and "files p path = Inl e"
  shows "fst (detectGracelyRuntime (Some path) p) = Inr ''local''"
  using assms
  by (auto simp: detectGracelyRuntime_def getenv_def readFileSync_def Let_def truthy_def
      split: detect_splits)

lemma detect_empty_path:
  assumes "\<not> truthy (process_env p ''KUBERNETES_SERVICE_HOST'')"
    and "process_env p ''K8S'' \<noteq> Some ''true''"
  shows "detectGracelyRuntime (Some []) p =
           (Inr ''local'',
            p\<lparr>accesses := accesses p @
               [EnvRead ''KUBERNETES_SERVICE_HOST'', EnvRead ''K8S'']\<rparr>)"
  using assms
  by (auto simp: detectGracelyRuntime_def getenv_def readFileSync_def Let_def truthy_def
      split: detect_splits)

text \<open>
  A file that cannot be read and a file that is read and holds nothing lead the detection
  to the same result.
\<close>

lemma detect_unreadable_as_empty:
  assumes "files p path = Inl e"
  shows "fst (detectGracelyRuntime ce (p\<lparr>files := (files p)(path := Inr [])\<rparr>))
           = fst (detectGracelyRuntime ce p)"
proof (cases "truthy (process_env p ''KUBERNETES_SERVICE_HOST'')
              \<or> process_env p ''K8S'' = Some ''true''")
  case True
  then show ?thesis
    by (auto simp: detectGracelyRuntime_def getenv_def Let_def)
next
  case False
  have n: "\<not> regex_test container_signatures []"
    by (simp add: container_signatures_def)
  show ?thesis
  proof (cases ce)
    case None
    with False show ?thesis
      by (simp add: detectGracelyRuntime_def getenv_def Let_def truthy_def)
  next
    case (Some q)
    show ?thesis
    proof (cases "q = path")
      case True
      with False Some assms n show ?thesis
        by (simp add: detectGracelyRuntime_def getenv_def readFileSync_def Let_def truthy_def)
    next
      case other: False
      with False Some show ?thesis
        by (simp add: detectGracelyRuntime_def getenv_def readFileSync_def Let_def truthy_def
            split: sum.splits)
    qed
  qed
qed

section \<open>Properties of the plugin\<close>

lemma falsy_iff: "(\<not> truthy v) = (v = None \<or> v = Some [])"
  by (cases v) (auto simp: truthy_def)

text \<open>The plugin body, in its parts.\<close>

lemma plugin_unfold:
  "plugin check opts f p =
     (case resolve opts p of
        (Inl e, p') \<Rightarrow> Inl e
      | (Inr env, p') \<Rightarrow>
          (case check (server_options opts env) of
             Some e \<Rightarrow> Inl e
           | None \<Rightarrow>
               if decorators f ''gracely'' = None \<and> request_decorators f ''gracely'' = None
               then Inr (registered opts f env p')
               else Inl (Error ''FST_ERR_DEC_ALREADY_PRESENT'')))"
proof -
  obtain d p' where r: "resolve opts p = (d, p')"
    by (cases "resolve opts p")
  then have r': "(if or_default (opt_runtime opts) ''auto'' = ''auto''
                  then detectGracelyRuntime
                         (Some (or_default (opt_containerEndpoint opts) ''/proc/1/cgroup'')) p
                  else (Inr (or_default (opt_runtime opts) ''auto''), p)) = (d, p')"
    by (simp add: resolve_def)
  show ?thesis
  proof (cases d)
    case (Inl e)
    then show ?thesis by (simp add: plugin_def Let_def r r')
  next
    case env: (Inr env)
    show ?thesis
    proof (cases "check (server_options opts env)")
      case (Some e)
      then show ?thesis
        by (simp add: plugin_def Let_def r r' env GracefulServer_create_def server_options_def)
    next
      case None
      show ?thesis
      proof (cases "decorators f ''gracely''")
        case (Some b)
        with None show ?thesis
          by (simp add: plugin_def Let_def r r' env GracefulServer_create_def
              server_options_def alloc_def decorate_def)
      next
        case no_decorator: None
        show ?thesis
        proof (cases "request_decorators f ''gracely''")
          case (Some b)
          with None no_decorator show ?thesis
            by (simp add: plugin_def Let_def r r' env GracefulServer_create_def
                server_options_def alloc_def decorate_def decorateRequest_def)
        next
          case no_request_decorator: None
          with None no_decorator show ?thesis
            by (cases f)
               (simp add: plugin_def Let_def r r' env GracefulServer_create_def
                  server_options_def alloc_def decorate_def decorateRequest_def registered_def)
        qed
      qed
    qed
  qed
qed

lemma resolve_total: "\<exists>env. fst (resolve opts p) = Inr env"
  using detect_total by (simp add: resolve_def)

lemma resolve_auto:
  "or_default (opt_runtime opts) ''auto'' = ''auto'' \<Longrightarrow>
   resolve opts p =
     detectGracelyRuntime (Some (or_default (opt_containerEndpoint opts) ''/proc/1/cgroup'')) p"
  by (simp add: resolve_def)

lemma resolve_explicit:
  "opt_runtime opts = Some v \<Longrightarrow> v \<noteq> ''auto'' \<Longrightarrow> resolve opts p = (Inr v, p)"
  by (simp add: resolve_def or_default_def)

text \<open>A construction that succeeds leaves the registered state of the resolved environment.\<close>

lemma plugin_Inr:
  assumes "plugin check opts f p = Inr r"
  shows "\<exists>env. fst (resolve opts p) = Inr env \<and> check (server_options opts env) = None
           \<and> r = registered opts f env (snd (resolve opts p))
           \<and> decorators f ''gracely'' = None \<and> request_decorators f ''gracely'' = None"
proof -
  obtain env p' where d: "resolve opts p = (Inr env, p')"
    using resolve_total[of opts p] by (cases "resolve opts p") auto
  from assms show ?thesis
    by (simp add: plugin_unfold d split: option.splits if_splits)
qed

text \<open>
  An error thrown out of the plugin is one thrown by the constructor's validation, or the
  refusal of a decorator that is already there.
\<close>

lemma plugin_Inl:
  assumes "plugin check opts f p = Inl e"
  shows "\<exists>env. fst (resolve opts p) = Inr env
           \<and> (check (server_options opts env) = Some e
                \<or> check (server_options opts env) = None
                  \<and> e = Error ''FST_ERR_DEC_ALREADY_PRESENT''
                  \<and> (decorators f ''gracely'' \<noteq> None
                       \<or> request_decorators f ''gracely'' \<noteq> None))"
proof -
  obtain env p' where d: "resolve opts p = (Inr env, p')"
    using resolve_total[of opts p] by (cases "resolve opts p") auto
  from assms show ?thesis
    by (auto simp add: plugin_unfold d split: option.splits if_splits)
qed

text \<open>On a host without the decorator, beside a constructor that accepts everything.\<close>

lemma plugin_accept_all: "\<exists>r. plugin accept_all opts new_fastify p = Inr r"
proof (cases "plugin accept_all opts new_fastify p")
  case (Inl e)
  then show ?thesis
    using plugin_Inl[of accept_all opts new_fastify p e]
    by (simp add: accept_all_def new_fastify_def)
next
  case (Inr r)
  then show ?thesis by simp
qed

text \<open>
  Whether the plugin throws, and what, depends on the process only through the resolved
  environment.
\<close>

lemma plugin_Inl_cong:
  assumes "fst (resolve opts p') = fst (resolve opts p)"
  shows "(plugin check opts f p' = Inl e) = (plugin check opts f p = Inl e)"
proof -
  obtain env q where d: "resolve opts p = (Inr env, q)"
    using resolve_total[of opts p] by (cases "resolve opts p") auto
  with assms obtain q' where d': "resolve opts p' = (Inr env, q')"
    by (cases "resolve opts p'") auto
  show ?thesis
    by (cases "check (server_options opts env)") (simp_all add: plugin_unfold d d')
qed

lemma registered_runtime [simp]:
  "fastify_gracely_runtime (registered opts f env p) = Some env"
  by (simp add: registered_def fastify_gracely_runtime_def fastify_gracely_def object_at_def
      deref_def)

lemma registered_proc [simp]: "proc (registered opts f env p) = p"
  by (simp add: registered_def)

text \<open>
  With runtime \<open>'auto'\<close> (given or by default) the registered object carries what the
  detection returned, and the process has made the reads of the detection and no other.
\<close>

lemma plugin_auto_Inr:
  assumes "plugin check opts f p = Inr r"
    and "or_default (opt_runtime opts) ''auto'' = ''auto''"
  shows "fastify_gracely_runtime r = Some v \<longleftrightarrow>
           fst (detectGracelyRuntime
                  (Some (or_default (opt_containerEndpoint opts) ''/proc/1/cgroup'')) p) = Inr v"
    and "proc r = snd (detectGracelyRuntime
                  (Some (or_default (opt_containerEndpoint opts) ''/proc/1/cgroup'')) p)"
  using plugin_Inr[OF assms(1)] resolve_auto[OF assms(2), of p] by auto

lemmas example_defs =
  plugin_def decorate_def decorateRequest_def
  no_options_def or_default_def detectGracelyRuntime_def getenv_def
  readFileSync_def truthy_def GracefulServer_create_def accept_all_def alloc_def
  new_fastify_def outcome_def fastify_gracely_runtime_def fastify_gracely_def
  request_gracely_def object_at_def deref_def inspected_def file_reads_def

section \<open>Claims about the detection\<close>

text \<open>
  C1, as amended. With runtime \<open>'auto'\<close>: if \<open>KUBERNETES_SERVICE_HOST\<close> is present with a
  non-empty value, or \<open>K8S\<close> is exactly \<open>'true'\<close>, the detection returns \<open>'kubernetes'\<close>
  and reads no file, whatever the configured \<open>containerEndpoint\<close> and whatever the file
  system holds; the registered object then carries \<open>'kubernetes'\<close>.
\<close>

theorem kubernetes_env_wins:
  assumes "(\<exists>v. process_env p ''KUBERNETES_SERVICE_HOST'' = Some v \<and> v \<noteq> [])
           \<or> process_env p ''K8S'' = Some ''true''"
  shows "fst (detectGracelyRuntime containerEndpoint p) = Inr ''kubernetes''
       \<and> file_reads (snd (detectGracelyRuntime containerEndpoint p)) = file_reads p
       \<and> (\<forall>r. or_default (opt_runtime opts) ''auto'' = ''auto'' \<longrightarrow>
               plugin check opts f p = Inr r \<longrightarrow>
               fastify_gracely_runtime r = Some ''kubernetes''
               \<and> file_reads (proc r) = file_reads p)"
proof -
  from assms have k: "truthy (process_env p ''KUBERNETES_SERVICE_HOST'')
           \<or> process_env p ''K8S'' = Some ''true''"
    by (auto simp: truthy_def)
  show ?thesis
    using detect_kubernetes[OF k] plugin_auto_Inr[of check opts f p] by simp
qed

text \<open>
  The theorem at a process whose service-host variable is set and whose every file looks
  like a container's: \<open>'kubernetes'\<close>, and only the one variable was looked at.
\<close>

theorem kubernetes_env_wins_witness:
  "process_env kubernetes_process ''KUBERNETES_SERVICE_HOST'' = Some ''10.96.0.1''
   \<and> files kubernetes_process ''/proc/1/cgroup'' = Inr ''12:pids:/docker/abc''
   \<and> fst (detectGracelyRuntime (Some ''/proc/1/cgroup'') kubernetes_process) = Inr ''kubernetes''
   \<and> file_reads (snd (detectGracelyRuntime (Some ''/proc/1/cgroup'') kubernetes_process)) = []
   \<and> outcome fastify_gracely_runtime (plugin accept_all no_options new_fastify kubernetes_process)
       = Some (Some ''kubernetes'')
   \<and> outcome inspected (plugin accept_all no_options new_fastify kubernetes_process)
       = Some [EnvRead ''KUBERNETES_SERVICE_HOST'']"
proof -
  have h: "(\<exists>v. process_env kubernetes_process ''KUBERNETES_SERVICE_HOST'' = Some v \<and> v \<noteq> [])
           \<or> process_env kubernetes_process ''K8S'' = Some ''true''"
    by (simp add: kubernetes_process_def)
  have d: "or_default (opt_runtime no_options) ''auto'' = ''auto''"
    by (simp add: no_options_def or_default_def)
  obtain r where r: "plugin accept_all no_options new_fastify kubernetes_process = Inr r"
    by (simp add: example_defs kubernetes_process_def)
  have i: "inspected r = [EnvRead ''KUBERNETES_SERVICE_HOST'']"
    using r by (auto simp add: example_defs kubernetes_process_def)
  from kubernetes_env_wins[OF h, of "Some ''/proc/1/cgroup''" no_options accept_all new_fastify] d r i
  show ?thesis
    by (simp add: outcome_def kubernetes_process_def file_reads_def)
qed

text \<open>
  C1 as stated fails where the service-host variable is present and empty: the empty
  string is falsy, and the detection goes on to \<open>'local'\<close>.
\<close>

theorem empty_service_host_counterexample:
  "process_env empty_host_process ''KUBERNETES_SERVICE_HOST'' = Some []
   \<and> fst (detectGracelyRuntime (Some ''/proc/1/cgroup'') empty_host_process) = Inr ''local''
   \<and> outcome fastify_gracely_runtime
        (plugin accept_all (no_options\<lparr>opt_runtime := Some ''auto''\<rparr>) new_fastify
           empty_host_process)
       = Some (Some ''local'')"
  by (simp add: example_defs empty_host_process_def)

text \<open>
  C2. When no kubernetes variable decides (in particular when neither is set), the
  configured marker path is not empty and the file there reads as text that contains one
  of the signatures \<open>docker\<close>, \<open>kubepods\<close>, \<open>containerd\<close>, \<open>libpod\<close> in any mix of
  upper and lower case (\<open>s\<close> is such an occurrence, between \<open>pre\<close> and \<open>post\<close>), the
  detection returns \<open>'container'\<close>, and so does the plugin with runtime \<open>'auto'\<close>.
\<close>

theorem container_signature_detected:
  assumes "process_env p ''KUBERNETES_SERVICE_HOST'' = None
           \<or> process_env p ''KUBERNETES_SERVICE_HOST'' = Some []"
    and "process_env p ''K8S'' \<noteq> Some ''true''"
    and "path \<noteq> []"
    and "files p path = Inr (pre @ s @ post)"
    and "sig \<in> set container_signatures"
    and "map canonicalize s = map canonicalize sig"
  shows "fst (detectGracelyRuntime (Some path) p) = Inr ''container''
       \<and> (\<forall>r. or_default (opt_runtime opts) ''auto'' = ''auto'' \<longrightarrow>
               or_default (opt_containerEndpoint opts) ''/proc/1/cgroup'' = path \<longrightarrow>
               plugin check opts f p = Inr r \<longrightarrow>
               fastify_gracely_runtime r = Some ''container'')"
proof -
  have k: "\<not> truthy (process_env p ''KUBERNETES_SERVICE_HOST'')"
    using assms(1) by (simp add: falsy_iff)
  have t: "regex_test container_signatures (pre @ s @ post)"
    using assms(5,6) by (rule regex_test_contains)
  have d: "fst (detectGracelyRuntime (Some path) p) = Inr ''container''"
    using detect_container[OF k assms(2,3,4) t] by simp
  show ?thesis
    using d plugin_auto_Inr(1)[of check opts f p] by auto
qed

theorem container_signature_detected_witness:
  "process_env container_process ''KUBERNETES_SERVICE_HOST'' = None
   \<and> process_env container_process ''K8S'' = None
   \<and> files container_process ''/proc/1/cgroup'' = Inr (''12:pids:/'' @ ''DOCKER'' @ ''/0a1b'')
   \<and> map canonicalize ''DOCKER'' = map canonicalize ''docker''
   \<and> fst (detectGracelyRuntime (Some ''/proc/1/cgroup'') container_process) = Inr ''container''
   \<and> outcome fastify_gracely_runtime (plugin accept_all no_options new_fastify container_process)
       = Some (Some ''container'')"
proof -
  have h1: "process_env container_process ''KUBERNETES_SERVICE_HOST'' = None
           \<or> process_env container_process ''KUBERNETES_SERVICE_HOST'' = Some []"
    by (simp add: container_process_def)
  have h2: "process_env container_process ''K8S'' \<noteq> Some ''true''"
    by (simp add: container_process_def)
  have h3: "''/proc/1/cgroup'' \<noteq> []" by simp
  have h4: "files container_process ''/proc/1/cgroup'' = Inr (''12:pids:/'' @ ''DOCKER'' @ ''/0a1b'')"
    by (simp add: container_process_def)
  have h5: "''docker'' \<in> set container_signatures"
    by (simp add: container_signatures_def)
  have h6: "map canonicalize ''DOCKER'' = map canonicalize ''docker''"
    by (simp add: canonicalize_def)
  have d: "or_default (opt_runtime no_options) ''auto'' = ''auto''"
     "or_default (opt_containerEndpoint no_options) ''/proc/1/cgroup'' = ''/proc/1/cgroup''"
    by (simp_all add: no_options_def or_default_def)
  obtain r where r: "plugin accept_all no_options new_fastify container_process = Inr r"
    using plugin_accept_all by blast
  from container_signature_detected[OF h1 h2 h3 h4 h5 h6, of no_options accept_all new_fastify] d r
  have "fst (detectGracelyRuntime (Some ''/proc/1/cgroup'') container_process) = Inr ''container''"
    and "fastify_gracely_runtime r = Some ''container''"
    by simp_all
  then show ?thesis
    using h4 h6 r by (simp add: outcome_def container_process_def)
qed

text \<open>
  C3. With \<open>containerEndpoint\<close> the empty string and no kubernetes variable deciding, the
  detection returns \<open>'local'\<close> and the list of files read is what it was before; the
  same holds for the plugin with runtime \<open>'auto'\<close> and \<open>containerEndpoint: ''\<close>.
\<close>

theorem empty_container_endpoint_no_read:
  assumes "process_env p ''KUBERNETES_SERVICE_HOST'' = None
           \<or> process_env p ''KUBERNETES_SERVICE_HOST'' = Some []"
    and "process_env p ''K8S'' \<noteq> Some ''true''"
  shows "fst (detectGracelyRuntime (Some []) p) = Inr ''local''
       \<and> file_reads (snd (detectGracelyRuntime (Some []) p)) = file_reads p
       \<and> (\<forall>r. or_default (opt_runtime opts) ''auto'' = ''auto'' \<longrightarrow>
               opt_containerEndpoint opts = Some [] \<longrightarrow>
               plugin check opts f p = Inr r \<longrightarrow>
               fastify_gracely_runtime r = Some ''local''
               \<and> file_reads (proc r) = file_reads p)"
proof -
  have k: "\<not> truthy (process_env p ''KUBERNETES_SERVICE_HOST'')"
    using assms(1) by (simp add: falsy_iff)
  note d = detect_empty_path[OF k assms(2)]
  have 1: "fst (detectGracelyRuntime (Some []) p) = Inr ''local''"
    and 2: "file_reads (snd (detectGracelyRuntime (Some []) p)) = file_reads p"
    by (simp_all add: d file_reads_def)
  show ?thesis
    using 1 2 plugin_auto_Inr[of check opts f p] by (auto simp: or_default_def)
qed

theorem empty_container_endpoint_no_read_witness:
  "process_env container_process ''KUBERNETES_SERVICE_HOST'' = None
   \<and> process_env container_process ''K8S'' = None
   \<and> fst (detectGracelyRuntime (Some []) container_process) = Inr ''local''
   \<and> file_reads (snd (detectGracelyRuntime (Some []) container_process)) = []
   \<and> outcome fastify_gracely_runtime
        (plugin accept_all (no_options\<lparr>opt_containerEndpoint := Some []\<rparr>) new_fastify
           container_process) = Some (Some ''local'')
   \<and> outcome inspected
        (plugin accept_all (no_options\<lparr>opt_containerEndpoint := Some []\<rparr>) new_fastify
           container_process) = Some [EnvRead ''KUBERNETES_SERVICE_HOST'', EnvRead ''K8S'']"
proof -
  let ?opts = "no_options\<lparr>opt_containerEndpoint := Some []\<rparr>"
  have h1: "process_env container_process ''KUBERNETES_SERVICE_HOST'' = None
           \<or> process_env container_process ''KUBERNETES_SERVICE_HOST'' = Some []"
    by (simp add: container_process_def)
  have h2: "process_env container_process ''K8S'' \<noteq> Some ''true''"
    by (simp add: container_process_def)
  have d: "or_default (opt_runtime ?opts) ''auto'' = ''auto''" "opt_containerEndpoint ?opts = Some []"
    by (simp_all add: no_options_def or_default_def)
  obtain r where r: "plugin accept_all ?opts new_fastify container_process = Inr r"
    using plugin_accept_all by blast
  have i: "outcome inspected (plugin accept_all ?opts new_fastify container_process)
             = Some [EnvRead ''KUBERNETES_SERVICE_HOST'', EnvRead ''K8S'']"
    by (simp add: example_defs container_process_def)
  from empty_container_endpoint_no_read[OF h1 h2, of ?opts accept_all new_fastify] d r
  have "fst (detectGracelyRuntime (Some []) container_process) = Inr ''local''"
    and "file_reads (snd (detectGracelyRuntime (Some []) container_process))
           = file_reads container_process"
    and "fastify_gracely_runtime r = Some ''local''"
    by simp_all
  then show ?thesis
    using i r by (simp add: outcome_def container_process_def file_reads_def)
qed

text \<open>
  C4. When reading the marker file throws, whatever the error, and no kubernetes variable
  decides, the detection returns \<open>'local'\<close>: it returns, and the error is not its result.
  The plugin with runtime \<open>'auto'\<close> then registers \<open>'local'\<close>. The failed read makes no
  other difference to the caller: whether the plugin throws, and what, is what it would
  be had the file been read and held nothing.
\<close>

theorem unreadable_marker_falls_back_to_local:
  assumes "process_env p ''KUBERNETES_SERVICE_HOST'' = None
           \<or> process_env p ''KUBERNETES_SERVICE_HOST'' = Some []"
    and "process_env p ''K8S'' \<noteq> Some ''true''"
    and "files p path = Inl e"
  shows "fst (detectGracelyRuntime (Some path) p) = Inr ''local''
       \<and> (\<forall>r. or_default (opt_runtime opts) ''auto'' = ''auto'' \<longrightarrow>
               or_default (opt_containerEndpoint opts) ''/proc/1/cgroup'' = path \<longrightarrow>
               plugin check opts f p = Inr r \<longrightarrow>
               fastify_gracely_runtime r = Some ''local'')
       \<and> (\<forall>e'. (plugin check opts f p = Inl e')
                = (plugin check opts f (p\<lparr>files := (files p)(path := Inr [])\<rparr>) = Inl e'))"
proof -
  have k: "\<not> truthy (process_env p ''KUBERNETES_SERVICE_HOST'')"
    using assms(1) by (simp add: falsy_iff)
  have d: "fst (detectGracelyRuntime (Some path) p) = Inr ''local''"
    using detect_unreadable[OF k assms(2,3)] .
  have "fst (resolve opts (p\<lparr>files := (files p)(path := Inr [])\<rparr>)) = fst (resolve opts p)"
    using detect_unreadable_as_empty[OF assms(3)] by (simp add: resolve_def)
  then have i: "(plugin check opts f p = Inl e')
                = (plugin check opts f (p\<lparr>files := (files p)(path := Inr [])\<rparr>) = Inl e')"
    for e'
    using plugin_Inl_cong[of opts "p\<lparr>files := (files p)(path := Inr [])\<rparr>" p check f e']
    by simp
  show ?thesis
    using d plugin_auto_Inr(1)[of check opts f p] i by auto
qed

theorem unreadable_marker_falls_back_to_local_witness:
  "process_env bare_process ''KUBERNETES_SERVICE_HOST'' = None
   \<and> process_env bare_process ''K8S'' = None
   \<and> files bare_process ''/proc/1/cgroup'' = Inl (Error ''ENOENT'')
   \<and> fst (detectGracelyRuntime (Some ''/proc/1/cgroup'') bare_process) = Inr ''local''
   \<and> outcome fastify_gracely_runtime (plugin accept_all no_options new_fastify bare_process)
       = Some (Some ''local'')
   \<and> outcome inspected (plugin accept_all no_options new_fastify bare_process)
       = Some [EnvRead ''KUBERNETES_SERVICE_HOST'', EnvRead ''K8S'', FileRead ''/proc/1/cgroup'']"
proof -
  have h1: "process_env bare_process ''KUBERNETES_SERVICE_HOST'' = None
           \<or> process_env bare_process ''KUBERNETES_SERVICE_HOST'' = Some []"
    by (simp add: bare_process_def)
  have h2: "process_env bare_process ''K8S'' \<noteq> Some ''true''"
    by (simp add: bare_process_def)
  have h3: "files bare_process ''/proc/1/cgroup'' = Inl (Error ''ENOENT'')"
    by (simp add: bare_process_def)
  have d: "or_default (opt_runtime no_options) ''auto'' = ''auto''"
     "or_default (opt_containerEndpoint no_options) ''/proc/1/cgroup'' = ''/proc/1/cgroup''"
    by (simp_all add: no_options_def or_default_def)
  obtain r where r: "plugin accept_all no_options new_fastify bare_process = Inr r"
    using plugin_accept_all by blast
  have i: "outcome inspected (plugin accept_all no_options new_fastify bare_process)
       = Some [EnvRead ''KUBERNETES_SERVICE_HOST'', EnvRead ''K8S'', FileRead ''/proc/1/cgroup'']"
    by (simp add: example_defs bare_process_def)
  from unreadable_marker_falls_back_to_local[OF h1 h2 h3, of no_options accept_all new_fastify] d r
  have "fst (detectGracelyRuntime (Some ''/proc/1/cgroup'') bare_process) = Inr ''local''"
    and "fastify_gracely_runtime r = Some ''local''"
    by simp_all
  then show ?thesis
    using i r by (simp add: outcome_def bare_process_def)
qed

text \<open>
  C10. With the service-host variable absent or empty, the detection returns
  \<open>'kubernetes'\<close> exactly when \<open>K8S\<close> is the string \<open>true\<close>, in lower case; with the
  service-host variable holding any non-empty value it returns \<open>'kubernetes'\<close>.
\<close>

theorem k8s_flag_exact_service_host_nonempty:
  "(process_env p ''KUBERNETES_SERVICE_HOST'' = None
      \<or> process_env p ''KUBERNETES_SERVICE_HOST'' = Some [] \<longrightarrow>
      (fst (detectGracelyRuntime containerEndpoint p) = Inr ''kubernetes'')
        = (process_env p ''K8S'' = Some ''true''))
   \<and> (\<forall>v. process_env p ''KUBERNETES_SERVICE_HOST'' = Some v \<longrightarrow> v \<noteq> [] \<longrightarrow>
          fst (detectGracelyRuntime containerEndpoint p) = Inr ''kubernetes'')"
proof (intro conjI impI allI)
  assume a: "process_env p ''KUBERNETES_SERVICE_HOST'' = None
      \<or> process_env p ''KUBERNETES_SERVICE_HOST'' = Some []"
  then have k: "\<not> truthy (process_env p ''KUBERNETES_SERVICE_HOST'')"
    by (simp add: falsy_iff)
  show "(fst (detectGracelyRuntime containerEndpoint p) = Inr ''kubernetes'')
        = (process_env p ''K8S'' = Some ''true'')"
  proof (cases "process_env p ''K8S'' = Some ''true''")
    case True
    then show ?thesis using detect_kubernetes(1)[of p containerEndpoint] by simp
  next
    case False
    then show ?thesis using detect_not_kubernetes[OF k False, of containerEndpoint] by auto
  qed
next
  fix v
  assume "process_env p ''KUBERNETES_SERVICE_HOST'' = Some v" "v \<noteq> []"
  then have "truthy (process_env p ''KUBERNETES_SERVICE_HOST'')" by (simp add: truthy_def)
  then show "fst (detectGracelyRuntime containerEndpoint p) = Inr ''kubernetes''"
    using detect_kubernetes(1)[of p containerEndpoint] by simp
qed

theorem k8s_flag_exact_service_host_nonempty_witness:
  "fst (detectGracelyRuntime (Some ''/proc/1/cgroup'') (flag_process ''true'')) = Inr ''kubernetes''
   \<and> fst (detectGracelyRuntime (Some ''/proc/1/cgroup'') (flag_process ''TRUE'')) \<noteq> Inr ''kubernetes''
   \<and> fst (detectGracelyRuntime (Some ''/proc/1/cgroup'') (flag_process ''True'')) \<noteq> Inr ''kubernetes''
   \<and> fst (detectGracelyRuntime (Some ''/proc/1/cgroup'') (flag_process ''1'')) \<noteq> Inr ''kubernetes''
   \<and> fst (detectGracelyRuntime (Some ''/proc/1/cgroup'') kubernetes_process) = Inr ''kubernetes''"
proof -
  have h: "process_env (flag_process v) ''KUBERNETES_SERVICE_HOST'' = None
      \<or> process_env (flag_process v) ''KUBERNETES_SERVICE_HOST'' = Some []" for v
    by (simp add: flag_process_def)
  have f: "process_env (flag_process v) ''K8S'' = Some v" for v
    by (simp add: flag_process_def)
  have k: "process_env kubernetes_process ''KUBERNETES_SERVICE_HOST'' = Some ''10.96.0.1''"
    by (simp add: kubernetes_process_def)
  note t = k8s_flag_exact_service_host_nonempty[of _ "Some ''/proc/1/cgroup''"]
  from t[of "flag_process ''true''"] t[of "flag_process ''TRUE''"] t[of "flag_process ''True''"]
    t[of "flag_process ''1''"] t[of kubernetes_process] h f k
  show ?thesis by simp
qed

section \<open>Properties of the life after construction\<close>

text \<open>Events and calls into the library touch the effects and the library's state only.\<close>

lemma emit_fields [simp]:
  "host (emit ev r) = host r" "graceful (emit ev r) = graceful r"
  "listeners (emit ev r) = listeners r" "callbacks (emit ev r) = callbacks r"
  "proc (emit ev r) = proc r"
  by (simp_all add: emit_def)

lemma fold_emit_fields [simp]:
  "host (fold emit evs r) = host r" "graceful (fold emit evs r) = graceful r"
  "listeners (fold emit evs r) = listeners r" "callbacks (fold emit evs r) = callbacks r"
  "proc (fold emit evs r) = proc r"
  by (induction evs arbitrary: r) simp_all

lemma call_graceful_fields [simp]:
  "host (call_graceful m r) = host r" "listeners (call_graceful m r) = listeners r"
  "callbacks (call_graceful m r) = callbacks r" "proc (call_graceful m r) = proc r"
  by (simp_all add: call_graceful_def split: prod.splits)

lemma call_graceful_state:
  "graceful (call_graceful m r) = fst (m (graceful r))"
  by (simp add: call_graceful_def split: prod.splits)

lemma fold_emit_effects:
  "effects (fold emit evs r) =
     effects r @ concat (map (\<lambda>ev. concat (map (\<lambda>l. run_listener (callbacks r) l ev)
                                              (listeners r))) evs)"
proof (induction evs arbitrary: r)
  case Nil
  then show ?case by simp
next
  case (Cons ev evs)
  show ?case by (simp add: Cons.IH) (simp add: emit_def)
qed

lemma call_graceful_effects:
  "effects (call_graceful m r) =
     effects r @ concat (map (\<lambda>ev. concat (map (\<lambda>l. run_listener (callbacks r) l ev)
                                              (listeners r))) (snd (m (graceful r))))"
  by (simp add: call_graceful_def fold_emit_effects split: prod.splits)

lemma run_hook_fields [simp]:
  "host (run_hook h r) = host r" "listeners (run_hook h r) = listeners r"
  "callbacks (run_hook h r) = callbacks r" "proc (run_hook h r) = proc r"
  by (cases h; simp)+

lemma fold_run_hook_fields [simp]:
  "host (fold run_hook hs r) = host r" "listeners (fold run_hook hs r) = listeners r"
  "callbacks (fold run_hook hs r) = callbacks r" "proc (fold run_hook hs r) = proc r"
  by (induction hs arbitrary: r) simp_all

lemma step_fields [simp]:
  "listeners (step a r) = listeners r" "callbacks (step a r) = callbacks r"
  "proc (step a r) = proc r"
  "decorators (host (step a r)) = decorators (host r)"
  "request_decorators (host (step a r)) = request_decorators (host r)"
  "onReady_hooks (host (step a r)) = onReady_hooks (host r)"
  by (cases a; simp)+

lemma fold_step_fields [simp]:
  "listeners (fold step acts r) = listeners r" "callbacks (fold step acts r) = callbacks r"
  "proc (fold step acts r) = proc r"
  "decorators (host (fold step acts r)) = decorators (host r)"
  "request_decorators (host (fold step acts r)) = request_decorators (host r)"
  "onReady_hooks (host (fold step acts r)) = onReady_hooks (host r)"
  by (induction acts arbitrary: r) simp_all

text \<open>An assignment leaves every frozen object as it is, at its address.\<close>

lemma assign_runtime_frozen:
  assumes "deref h a = Some obj" and "frozen obj"
  shows "deref (assign_runtime b v h) a = Some obj"
proof (cases "deref h b")
  case None
  then show ?thesis using assms by (simp add: assign_runtime_def)
next
  case (Some other)
  show ?thesis
  proof (cases "frozen other")
    case True
    then show ?thesis using assms Some by (simp add: assign_runtime_def)
  next
    case False
    with assms Some have "a \<noteq> b" by auto
    then show ?thesis
      using assms Some False by (auto simp: assign_runtime_def deref_def split: if_splits)
  qed
qed

lemma step_frozen:
  assumes "deref (store (host r)) a = Some obj" and "frozen obj"
  shows "deref (store (host (step act r))) a = Some obj"
  using assms by (cases act) (simp_all add: assign_runtime_frozen)

lemma fold_step_frozen:
  assumes "deref (store (host r)) a = Some obj" and "frozen obj"
  shows "deref (store (host (fold step acts r))) a = Some obj"
  using assms by (induction acts arbitrary: r) (simp_all add: step_frozen)

lemma registered_refs:
  "fastify_gracely (registered opts f env p) = Some (length (store f))"
  "request_gracely (registered opts f env p) = Some (length (store f))"
  "deref (store (host (registered opts f env p))) (length (store f))
     = Some \<lparr>gracely_runtime = env, frozen = True\<rparr>"
  by (simp_all add: registered_def fastify_gracely_def request_gracely_def deref_def)

lemma registered_fields [simp]:
  "listeners (registered opts f env p) = [OnReady, OnShuttingDown, OnShutdown]"
  "callbacks (registered opts f env p) = opts"
  "effects (registered opts f env p) = []"
  "graceful (registered opts f env p) = \<lparr>gs_options = server_options opts env, gs_state = S_STARTING\<rparr>"
  "onReady_hooks (host (registered opts f env p)) = onReady_hooks f @ [SetReady]"
  by (simp_all add: registered_def)





section \<open>Claims about the plugin\<close>

text \<open>
  C5, as amended. When the \<open>SHUTDOWN\<close> event fires, at any moment in the life of a
  registered plugin, the listener calls the user's \<open>error\<close> callback exactly when one was
  supplied, once, and hands it the error value of the event as it is: an error or none.
  So it is when the event is fired by the end of a shutdown.
\<close>

theorem shutdown_listener_calls_error_callback:
  assumes "plugin check opts f p = Inr r"
  shows "effects (emit (SHUTDOWN error) (fold step acts r))
           = effects (fold step acts r) @ (if opt_error opts then [CallError error] else [])
       \<and> (gs_state (graceful (fold step acts r)) = S_SHUTTING_DOWN \<longrightarrow>
            effects (step (Complete error) (fold step acts r))
              = effects (fold step acts r) @ (if opt_error opts then [CallError error] else []))"
proof -
  from plugin_Inr[OF assms] obtain env where
    r: "r = registered opts f env (snd (resolve opts p))" by blast
  have l: "listeners r = [OnReady, OnShuttingDown, OnShutdown]"
    and c: "callbacks r = opts"
    by (simp_all add: r)
  show ?thesis
    by (simp add: emit_def call_graceful_effects markShutdown_def l c)
qed

theorem shutdown_listener_calls_error_callback_witness:
  "outcome effects
     (run accept_all (no_options\<lparr>opt_error := True\<rparr>) new_fastify bare_process
        [FireOnReady, Signal, Complete (Some (Error ''timeout''))])
     = Some [LogInfo ''Server is ready ...'', LogInfo ''Server is closed !!!'',
             CallError (Some (Error ''timeout''))]
   \<and> outcome effects
     (run accept_all no_options new_fastify bare_process
        [FireOnReady, Signal, Complete (Some (Error ''timeout''))])
     = Some [LogInfo ''Server is ready ...'', LogInfo ''Server is closed !!!'']"
proof -
  let ?acts = "[FireOnReady, Signal]"
  let ?e = "Some (Error ''timeout'')"
  have 1: "outcome effects
     (run accept_all opts new_fastify bare_process [FireOnReady, Signal, Complete ?e])
     = Some ([LogInfo ''Server is ready ...'', LogInfo ''Server is closed !!!'']
             @ (if opt_error opts then [CallError ?e] else []))"
    if o: "\<not> opt_ready opts" "\<not> opt_close opts" for opts
  proof -
    obtain r where r: "plugin accept_all opts new_fastify bare_process = Inr r"
      using plugin_accept_all by blast
    from plugin_Inr[OF r] obtain env where
      reg: "r = registered opts new_fastify env (snd (resolve opts bare_process))" by blast
    have s: "gs_state (graceful (fold step ?acts r)) = S_SHUTTING_DOWN"
      by (simp add: reg new_fastify_def call_graceful_state setReady_def beginShutdown_def)
    have e: "effects (fold step ?acts r)
               = [LogInfo ''Server is ready ...'', LogInfo ''Server is closed !!!'']"
      using o
      by (simp add: reg new_fastify_def call_graceful_state call_graceful_effects setReady_def
          beginShutdown_def)
    from shutdown_listener_calls_error_callback[OF r, of ?e ?acts] s e
    have "effects (step (Complete ?e) (fold step ?acts r))
            = [LogInfo ''Server is ready ...'', LogInfo ''Server is closed !!!'']
              @ (if opt_error opts then [CallError ?e] else [])"
      by simp
    then show ?thesis by (simp add: run_def r outcome_def)
  qed
  show ?thesis
    using 1[of "no_options\<lparr>opt_error := True\<rparr>"] 1[of no_options]
    by (simp add: no_options_def)
qed

text \<open>
  C5 as stated fails on a clean shutdown: the event carries no error, and the callback is
  called all the same, with that value.
\<close>

theorem clean_shutdown_error_callback_counterexample:
  "outcome effects
     (run accept_all (no_options\<lparr>opt_error := True\<rparr>) new_fastify bare_process
        [FireOnReady, Signal, Complete None])
     = Some [LogInfo ''Server is ready ...'', LogInfo ''Server is closed !!!'', CallError None]"
  by (simp add: run_def example_defs Let_def bare_process_def call_graceful_def emit_def
      setReady_def beginShutdown_def markShutdown_def)

text \<open>
  C6, at the options \<open>{runtime: 'none'}\<close> in a process that has the service-host variable
  set. As the claim says, the environment is \<open>'none'\<close>, no probe route is registered and
  nothing of the process is inspected. But the listeners and the \<open>onReady\<close> hook are
  registered as for any other runtime: the readiness query is false at first, true once
  the hook has run, false again when the shutdown begins, and the user's \<open>ready\<close>
  callback is called. The library is handed what it is handed for \<open>'local'\<close>.
\<close>

theorem runtime_none_readiness_tracks_lifecycle:
  "outcome fastify_gracely_runtime
     (run accept_all (no_options\<lparr>opt_runtime := Some ''none''\<rparr>) new_fastify kubernetes_process [])
     = Some (Some ''none'')
   \<and> outcome registered_routes
     (run accept_all (no_options\<lparr>opt_runtime := Some ''none''\<rparr>) new_fastify kubernetes_process [])
     = Some []
   \<and> outcome inspected
     (run accept_all (no_options\<lparr>opt_runtime := Some ''none''\<rparr>) new_fastify kubernetes_process [])
     = Some []
   \<and> outcome gracely_ready
     (run accept_all (no_options\<lparr>opt_runtime := Some ''none''\<rparr>) new_fastify kubernetes_process [])
     = Some False
   \<and> outcome gracely_ready
     (run accept_all (no_options\<lparr>opt_runtime := Some ''none''\<rparr>) new_fastify kubernetes_process
        [FireOnReady])
     = Some True
   \<and> outcome gracely_ready
     (run accept_all (no_options\<lparr>opt_runtime := Some ''none''\<rparr>) new_fastify kubernetes_process
        [FireOnReady, Signal])
     = Some False
   \<and> outcome effects
     (run accept_all (no_options\<lparr>opt_runtime := Some ''none'', opt_ready := True\<rparr>) new_fastify
        kubernetes_process [FireOnReady])
     = Some [CallReady, LogInfo ''Server is ready ...'']
   \<and> outcome graceful
     (plugin accept_all (no_options\<lparr>opt_runtime := Some ''none''\<rparr>) new_fastify kubernetes_process)
     = outcome graceful
         (plugin accept_all (no_options\<lparr>opt_runtime := Some ''local''\<rparr>) new_fastify
            kubernetes_process)
   \<and> outcome listeners
     (plugin accept_all (no_options\<lparr>opt_runtime := Some ''none''\<rparr>) new_fastify kubernetes_process)
     = Some [OnReady, OnShuttingDown, OnShutdown]"
  by (simp add: run_def example_defs Let_def kubernetes_process_def call_graceful_def emit_def
      setReady_def beginShutdown_def registered_routes_def probe_routes_def gracely_ready_def
      isReady_def)



text \<open>
  C8, as amended. The plugin validates nothing itself. It fails only with an error thrown
  by the constructor of the graceful server, on options that carry the timeout as given
  (10000 by default), or with the refusal of the \<open>gracely\<close> decorator where one is already
  registered. A runtime other than \<open>'auto'\<close>, recognised or not, becomes the environment as
  it is, with no detection, and switches the health check and the kubernetes mode of the
  graceful server on exactly when it is \<open>'kubernetes'\<close>; unless it is \<open>'kubernetes'\<close>, the
  construction succeeds exactly when it does with \<open>'local'\<close>.
\<close>

theorem plugin_validates_nothing:
  "(\<forall>e. plugin check opts f p = Inl e \<longrightarrow>
       (\<exists>options. check options = Some e
          \<and> o_timeout options = or_default (opt_timeout opts) 10000)
       \<or> e = Error ''FST_ERR_DEC_ALREADY_PRESENT''
         \<and> (decorators f ''gracely'' \<noteq> None \<or> request_decorators f ''gracely'' \<noteq> None))
   \<and> (\<forall>v r. opt_runtime opts = Some v \<longrightarrow> v \<noteq> ''auto'' \<longrightarrow> plugin check opts f p = Inr r \<longrightarrow>
         fastify_gracely_runtime r = Some v
         \<and> configured_timeout r = or_default (opt_timeout opts) 10000
         \<and> inspected r = accesses p
         \<and> o_healthCheck (gs_options (graceful r)) = (v = ''kubernetes'')
         \<and> o_kubernetes (gs_options (graceful r)) = (v = ''kubernetes''))
   \<and> (\<forall>v. opt_runtime opts = Some v \<longrightarrow> v \<noteq> ''auto'' \<longrightarrow> v \<noteq> ''kubernetes'' \<longrightarrow>
         (\<exists>r. plugin check opts f p = Inr r)
           = (\<exists>r. plugin check (opts\<lparr>opt_runtime := Some ''local''\<rparr>) f p = Inr r))"
proof -
  have A: "(\<exists>options. check options = Some e
          \<and> o_timeout options = or_default (opt_timeout opts) 10000)
       \<or> e = Error ''FST_ERR_DEC_ALREADY_PRESENT''
         \<and> (decorators f ''gracely'' \<noteq> None \<or> request_decorators f ''gracely'' \<noteq> None)"
    if "plugin check opts f p = Inl e" for e
  proof -
    from plugin_Inl[OF that] obtain env where
      c: "check (server_options opts env) = Some e
          \<or> e = Error ''FST_ERR_DEC_ALREADY_PRESENT''
            \<and> (decorators f ''gracely'' \<noteq> None \<or> request_decorators f ''gracely'' \<noteq> None)"
      by blast
    have t: "o_timeout (server_options opts env) = or_default (opt_timeout opts) 10000"
      by (simp add: server_options_def)
    show ?thesis
    proof (cases "check (server_options opts env) = Some e")
      case True
      with t show ?thesis by blast
    next
      case False
      with c show ?thesis by blast
    qed
  qed
  have B: "fastify_gracely_runtime r = Some v
         \<and> configured_timeout r = or_default (opt_timeout opts) 10000
         \<and> inspected r = accesses p
         \<and> o_healthCheck (gs_options (graceful r)) = (v = ''kubernetes'')
         \<and> o_kubernetes (gs_options (graceful r)) = (v = ''kubernetes'')"
    if v: "opt_runtime opts = Some v" "v \<noteq> ''auto''" and r: "plugin check opts f p = Inr r"
    for v r
  proof -
    from plugin_Inr[OF r] resolve_explicit[OF v, of p]
    have "r = registered opts f v p" by simp
    then show ?thesis
      by (simp add: configured_timeout_def inspected_def server_options_def)
  qed
  have C: "(\<exists>r. plugin check opts f p = Inr r)
           = (\<exists>r. plugin check (opts\<lparr>opt_runtime := Some ''local''\<rparr>) f p = Inr r)"
    if v: "opt_runtime opts = Some v" "v \<noteq> ''auto''" and k: "v \<noteq> ''kubernetes''" for v
  proof -
    let ?local = "opts\<lparr>opt_runtime := Some ''local''\<rparr>"
    have 1: "resolve opts p = (Inr v, p)" using v by (rule resolve_explicit)
    have 2: "resolve ?local p = (Inr ''local'', p)" by (rule resolve_explicit) simp_all
    have 3: "server_options ?local ''local'' = server_options opts v"
      using k by (simp add: server_options_def)
    show ?thesis
      by (simp add: plugin_unfold 1 2 3 split: option.splits)
  qed
  show ?thesis
    using A B C by blast
qed

text \<open>
  The theorem at a runtime that is not one of the five, beside a constructor that rejects
  timeouts that are not positive; the timeout \<open>-1\<close> beside that constructor and beside
  one that accepts everything; and a host on which \<open>gracely\<close> is already decorated.
\<close>

theorem plugin_validates_nothing_witness:
  "outcome fastify_gracely_runtime
     (plugin positive_timeout_only (no_options\<lparr>opt_runtime := Some ''bogus''\<rparr>) new_fastify
        bare_process) = Some (Some ''bogus'')
   \<and> outcome configured_timeout
     (plugin positive_timeout_only (no_options\<lparr>opt_runtime := Some ''bogus''\<rparr>) new_fastify
        bare_process) = Some 10000
   \<and> outcome inspected
     (plugin positive_timeout_only (no_options\<lparr>opt_runtime := Some ''bogus''\<rparr>) new_fastify
        bare_process) = Some []
   \<and> plugin positive_timeout_only (no_options\<lparr>opt_timeout := Some (- 1)\<rparr>) new_fastify
        bare_process = Inl (Error ''invalid timeout'')
   \<and> outcome configured_timeout
     (plugin accept_all (no_options\<lparr>opt_timeout := Some (- 1)\<rparr>) new_fastify
        bare_process) = Some (- 1)
   \<and> plugin accept_all no_options decorated_fastify bare_process
       = Inl (Error ''FST_ERR_DEC_ALREADY_PRESENT'')"
proof -
  let ?bogus = "no_options\<lparr>opt_runtime := Some ''bogus''\<rparr>"
  have b: "plugin positive_timeout_only ?bogus new_fastify bare_process
             = Inr (registered ?bogus new_fastify ''bogus'' bare_process)"
    by (simp add: plugin_unfold resolve_def server_options_def positive_timeout_only_def
        no_options_def or_default_def new_fastify_def)
  have o: "opt_runtime ?bogus = Some ''bogus''" "''bogus'' \<noteq> ''auto''"
    "or_default (opt_timeout ?bogus) 10000 = 10000" "accesses bare_process = []"
    by (simp_all add: no_options_def or_default_def bare_process_def)
  from plugin_validates_nothing[of positive_timeout_only ?bogus new_fastify bare_process] b o
  have 1: "fastify_gracely_runtime (registered ?bogus new_fastify ''bogus'' bare_process)
             = Some ''bogus''"
    and 2: "configured_timeout (registered ?bogus new_fastify ''bogus'' bare_process) = 10000"
    and 3: "inspected (registered ?bogus new_fastify ''bogus'' bare_process) = []"
    by auto
  have 4: "plugin positive_timeout_only (no_options\<lparr>opt_timeout := Some (- 1)\<rparr>) new_fastify
        bare_process = Inl (Error ''invalid timeout'')"
    by (simp add: example_defs Let_def bare_process_def positive_timeout_only_def)
  have 5: "outcome configured_timeout
     (plugin accept_all (no_options\<lparr>opt_timeout := Some (- 1)\<rparr>) new_fastify
        bare_process) = Some (- 1)"
    by (simp add: example_defs Let_def bare_process_def configured_timeout_def)
  have "\<exists>e. plugin accept_all no_options decorated_fastify bare_process = Inl e"
    by (simp add: plugin_unfold accept_all_def decorated_fastify_def split: prod.splits sum.splits)
  then obtain e where e: "plugin accept_all no_options decorated_fastify bare_process = Inl e"
    by blast
  from plugin_validates_nothing[of accept_all no_options decorated_fastify bare_process] e
  have 6: "e = Error ''FST_ERR_DEC_ALREADY_PRESENT''"
    by (auto simp: accept_all_def)
  show ?thesis
    using 1 2 3 4 5 6 e by (simp add: outcome_def b)
qed

text \<open>
  C8 as stated fails for a runtime outside the five values: the construction succeeds, even
  beside a constructor that rejects invalid timeouts, and the plugin serves as usual.
\<close>

theorem unrecognised_runtime_accepted_counterexample:
  "''bogus'' \<notin> set GracelyRuntime
   \<and> outcome fastify_gracely_runtime
     (plugin positive_timeout_only (no_options\<lparr>opt_runtime := Some ''bogus''\<rparr>) new_fastify
        bare_process) = Some (Some ''bogus'')
   \<and> outcome registered_routes
     (plugin positive_timeout_only (no_options\<lparr>opt_runtime := Some ''bogus''\<rparr>) new_fastify
        bare_process) = Some []
   \<and> outcome gracely_ready
     (run positive_timeout_only (no_options\<lparr>opt_runtime := Some ''bogus''\<rparr>) new_fastify
        bare_process [FireOnReady]) = Some True"
  by (simp add: run_def example_defs Let_def bare_process_def positive_timeout_only_def
      GracelyRuntime_def registered_routes_def probe_routes_def gracely_ready_def isReady_def
      call_graceful_def setReady_def emit_def)

text \<open>
  C9. After a construction that succeeds, \<open>fastify.gracely\<close> and \<open>request.gracely\<close>
  return one and the same reference; the object there is frozen and its \<open>runtime\<close> is the
  resolved environment. Whatever happens afterwards (the \<open>onReady\<close> hooks, a signal, the
  end of the shutdown, an assignment to the \<open>runtime\<close> field of any object), both getters
  still return that reference and the object is what it was.
\<close>

theorem gracely_shared_and_immutable:
  assumes "plugin check opts f p = Inr r"
  shows "\<exists>a env.
           fastify_gracely r = Some a \<and> request_gracely r = Some a
         \<and> object_at r (Some a) = Some \<lparr>gracely_runtime = env, frozen = True\<rparr>
         \<and> fst (resolve opts p) = Inr env
         \<and> fastify_gracely (fold step acts r) = Some a
         \<and> request_gracely (fold step acts r) = Some a
         \<and> object_at (fold step acts r) (Some a) = Some \<lparr>gracely_runtime = env, frozen = True\<rparr>"
proof -
  from plugin_Inr[OF assms] obtain env where
    env: "fst (resolve opts p) = Inr env" and
    r: "r = registered opts f env (snd (resolve opts p))" by blast
  let ?a = "length (store f)"
  let ?obj = "\<lparr>gracely_runtime = env, frozen = True\<rparr>"
  have 1: "fastify_gracely r = Some ?a" and 2: "request_gracely r = Some ?a"
    and 3: "deref (store (host r)) ?a = Some ?obj"
    by (simp_all add: r registered_refs)
  have 4: "deref (store (host (fold step acts r))) ?a = Some ?obj"
    using 3 by (rule fold_step_frozen) simp
  have 5: "fastify_gracely (fold step acts r) = Some ?a"
    and 6: "request_gracely (fold step acts r) = Some ?a"
    using 1 2 by (simp_all add: fastify_gracely_def request_gracely_def)
  show ?thesis
    using env 1 2 3 4 5 6 by (simp add: object_at_def)
qed

theorem gracely_shared_and_immutable_witness:
  "outcome fastify_gracely
     (run accept_all no_options new_fastify bare_process
        [AssignRuntime 0 ''kubernetes'', FireOnReady, Signal, Complete None]) = Some (Some 0)
   \<and> outcome request_gracely
     (run accept_all no_options new_fastify bare_process
        [AssignRuntime 0 ''kubernetes'', FireOnReady, Signal, Complete None]) = Some (Some 0)
   \<and> outcome fastify_gracely_runtime
     (run accept_all no_options new_fastify bare_process
        [AssignRuntime 0 ''kubernetes'', FireOnReady, Signal, Complete None]) = Some (Some ''local'')"
proof -
  let ?acts = "[AssignRuntime 0 ''kubernetes'', FireOnReady, Signal, Complete None]"
  obtain r where r: "plugin accept_all no_options new_fastify bare_process = Inr r"
    using plugin_accept_all by blast
  have e: "fst (resolve no_options bare_process) = Inr ''local''"
    by (simp add: resolve_def example_defs bare_process_def)
  have a: "fastify_gracely r = Some 0"
    using plugin_Inr[OF r] by (auto simp: registered_refs new_fastify_def)
  from gracely_shared_and_immutable[OF r, of ?acts] e a
  have "fastify_gracely (fold step ?acts r) = Some 0"
    and "request_gracely (fold step ?acts r) = Some 0"
    and "object_at (fold step ?acts r) (Some 0) = Some \<lparr>gracely_runtime = ''local'', frozen = True\<rparr>"
    by auto
  then show ?thesis
    by (simp add: run_def r outcome_def fastify_gracely_runtime_def)
qed

end
